theory Spec2Isabelle
  imports Main "HOL-Library.Sublist"
begin

section \<open>Milestone 1 RDF validator: the data model\<close>

text \<open>
  The validator (\<^verbatim>\<open>validate_milestone1.py\<close>) works on an rdflib graph. An rdflib term is a
  \<^verbatim>\<open>URIRef\<close>, a \<^verbatim>\<open>BNode\<close> or a \<^verbatim>\<open>Literal\<close>; all three are subclasses of \<^verbatim>\<open>str\<close>. A literal carries
  its lexical form, an optional language tag and an optional datatype; two literals are equal
  only when all three agree, and terms of different classes are never equal.
\<close>

datatype node =
    URIRef string
  | BNode string
  | Literal string "string option" "string option"

text \<open>\<^verbatim>\<open>str(t)\<close>: the text of a term (for a literal, its lexical form).\<close>

fun str :: "node \<Rightarrow> string" where
  "str (URIRef u) = u"
| "str (BNode b) = b"
| "str (Literal v lang dt) = v"

text \<open>\<^verbatim>\<open>isinstance(t, Literal)\<close>.\<close>

fun isLiteral :: "node \<Rightarrow> bool" where
  "isLiteral (Literal v lang dt) = True"
| "isLiteral (URIRef u) = False"
| "isLiteral (BNode b) = False"

type_synonym triple = "node \<times> node \<times> node"

text \<open>
  A graph is given by the list of its triples in the order in which the store enumerates them.
  The store holds a set of triples, so a loaded graph has no duplicates (\<open>distinct g\<close>); the
  theorems that count say so.
\<close>

type_synonym graph = "triple list"

text \<open>
  The pattern queries of the store: \<^verbatim>\<open>graph.triples((s, p, o))\<close> with \<^verbatim>\<open>None\<close> as wildcard,
  \<^verbatim>\<open>graph.subjects(p, o)\<close> and \<^verbatim>\<open>graph.objects(s, p)\<close>.
\<close>

fun matches :: "node option \<times> node option \<times> node option \<Rightarrow> triple \<Rightarrow> bool" where
  "matches (ps, pp, po) (s, p, ob) =
     ((ps = None \<or> ps = Some s) \<and> (pp = None \<or> pp = Some p) \<and> (po = None \<or> po = Some ob))"

definition triples :: "graph \<Rightarrow> node option \<times> node option \<times> node option \<Rightarrow> triple list" where
  "triples g pat = filter (matches pat) g"

definition subjects :: "graph \<Rightarrow> node \<Rightarrow> node \<Rightarrow> node list" where
  "subjects g p ob = map fst (triples g (None, Some p, Some ob))"

definition objects :: "graph \<Rightarrow> node \<Rightarrow> node \<Rightarrow> node list" where
  "objects g s p = map (\<lambda>t. snd (snd t)) (triples g (Some s, Some p, None))"

subsection \<open>The fixed vocabulary\<close>

definition OMC :: "string \<Rightarrow> node" where
  "OMC name = URIRef (''https://movielabs.com/omc/rdf/schema/v2.8#'' @ name)"

definition RDF_type :: node where
  "RDF_type = URIRef ''http://www.w3.org/1999/02/22-rdf-syntax-ns#type''"

definition RDFS_label :: node where
  "RDFS_label = URIRef ''http://www.w3.org/2000/01/rdf-schema#label''"

definition hasLocation :: node where
  "hasLocation = OMC ''hasLocation''"

definition hasParticipantStructuralCharacteristic :: node where
  "hasParticipantStructuralCharacteristic = OMC ''hasParticipantStructuralCharacteristic''"

definition hasIdentifier :: node where
  "hasIdentifier = OMC ''hasIdentifier''"

text \<open>The \<^verbatim>\<open>requirements\<close> dictionary, in its insertion order.\<close>

definition requirements :: "(string \<times> node) list" where
  "requirements =
     [(''CreativeWork'', OMC ''CreativeWork''),
      (''Participant'', OMC ''Participant''),
      (''Person'', OMC ''Person''),
      (''Location'', OMC ''Location''),
      (''Asset'', OMC ''Asset'')]"

subsection \<open>String operations of the source\<close>

text \<open>\<^verbatim>\<open>s.split(sep)\<close> for a one-character separator: never empty, the pieces between separators.\<close>

fun split_str :: "char \<Rightarrow> string \<Rightarrow> string list" where
  "split_str sep [] = [[]]"
| "split_str sep (c # cs) =
     (if c = sep then [] # split_str sep cs
      else (case split_str sep cs of
              [] \<Rightarrow> [[c]]
            | w # ws \<Rightarrow> (c # w) # ws))"

text \<open>\<^verbatim>\<open>s.split('/')[-1][:n]\<close>: the text after the last slash, cut to \<open>n\<close> characters.\<close>

definition short_name :: "nat \<Rightarrow> node \<Rightarrow> string" where
  "short_name n s = take n (last (split_str (CHR ''/'') (str s)))"

text \<open>
  \<^verbatim>\<open>str.lower()\<close>, on the letters A to Z; every other character is left as it is. The only
  string the result is searched for is plain lower-case ASCII.
\<close>

definition lower_char :: "char \<Rightarrow> char" where
  "lower_char c =
     (case map_of (zip ''ABCDEFGHIJKLMNOPQRSTUVWXYZ'' ''abcdefghijklmnopqrstuvwxyz'') c of
        Some l \<Rightarrow> l
      | None \<Rightarrow> c)"

definition lower :: "string \<Rightarrow> string" where
  "lower s = map lower_char s"

text \<open>\<^verbatim>\<open>pat in s\<close> on strings: \<open>pat\<close> occurs in \<open>s\<close> as a contiguous run.\<close>

fun starts_with :: "string \<Rightarrow> string \<Rightarrow> bool" where
  "starts_with [] s = True"
| "starts_with (p # ps) [] = False"
| "starts_with (p # ps) (c # cs) = (p = c \<and> starts_with ps cs)"

fun contains :: "string \<Rightarrow> string \<Rightarrow> bool" where
  "contains pat [] = (pat = [])"
| "contains pat (c # cs) = (starts_with pat (c # cs) \<or> contains pat cs)"

section \<open>The report and the state of a run\<close>

text \<open>
  One constructor for each \<^verbatim>\<open>print\<close> of the source, with the values its format string
  interpolates. The report is the list of printed lines.
\<close>

datatype line =
    Banner
  | Title
  | Loaded nat
  | ParseFailed string
  | Check1Header
  | EntityFound string nat
  | EntityMissing string
  | Check2Header
  | CriticalErrorsFound
  | LocationError string string
  | FixHint
  | AllLocationsAreURIs
  | Check3Header
  | ConnectionLiteral
  | ConnectionOK string
  | NoConnection
  | NoConnectionExpected
  | Check4Header
  | QualityIssuesFound
  | Spelling string
  | CircularRefs nat
  | Recommend
  | NoQualityIssues
  | SummaryBanner
  | ValidationPassed
  | AllPresent
  | Note nat
  | ValidationFailed
  | MustBeFixed
  | Usage
  | RdflibNotInstalled

text \<open>The local variables that the checks assign, and the output printed so far.\<close>

record vstate =
  passed :: bool
  connection_found :: bool
  quality_issues :: "line list"
  out :: "line list"

definition print_line :: "line \<Rightarrow> vstate \<Rightarrow> vstate" where
  "print_line l st = st\<lparr>out := out st @ [l]\<rparr>"

section \<open>The four checks\<close>

subsection \<open>Check 1: required entity types\<close>

definition check_entity :: "graph \<Rightarrow> string \<times> node \<Rightarrow> vstate \<Rightarrow> vstate" where
  "check_entity g req st =
     (let count = length (subjects g RDF_type (snd req))
      in if count > 0 then print_line (EntityFound (fst req) count) st
         else (print_line (EntityMissing (fst req)) st)\<lparr>passed := False\<rparr>)"

definition check1 :: "graph \<Rightarrow> vstate \<Rightarrow> vstate" where
  "check1 g st = fold (check_entity g) requirements (print_line Check1Header st)"

subsection \<open>Check 2: location references\<close>

definition location_error_step :: "triple \<Rightarrow> line list \<Rightarrow> line list" where
  "location_error_step t errs =
     (case t of (s, p, ob) \<Rightarrow>
        if isLiteral ob then errs @ [LocationError (short_name 20 s) (str ob)] else errs)"

definition location_errors :: "graph \<Rightarrow> line list" where
  "location_errors g = fold location_error_step (triples g (None, Some hasLocation, None)) []"

definition check2 :: "graph \<Rightarrow> vstate \<Rightarrow> vstate" where
  "check2 g st0 =
     (let st = print_line Check2Header st0;
          errs = location_errors g
      in if errs \<noteq> []
         then (print_line FixHint (fold print_line errs (print_line CriticalErrorsFound st)))
                \<lparr>passed := False\<rparr>
         else print_line AllLocationsAreURIs st)"

subsection \<open>Check 3: the Participant to Location connection\<close>

definition visit_location :: "node \<Rightarrow> node \<Rightarrow> vstate \<Rightarrow> vstate" where
  "visit_location participant location st =
     (if isLiteral location then (print_line ConnectionLiteral st)\<lparr>passed := False\<rparr>
      else (print_line (ConnectionOK (short_name 15 participant)) st)\<lparr>connection_found := True\<rparr>)"

definition visit_person :: "graph \<Rightarrow> node \<Rightarrow> node \<Rightarrow> vstate \<Rightarrow> vstate" where
  "visit_person g participant person st =
     fold (visit_location participant) (objects g person hasLocation) st"

definition visit_participant :: "graph \<Rightarrow> node \<Rightarrow> vstate \<Rightarrow> vstate" where
  "visit_participant g participant st =
     fold (visit_person g participant)
       (objects g participant hasParticipantStructuralCharacteristic) st"

definition participants :: "graph \<Rightarrow> node list" where
  "participants g = subjects g RDF_type (OMC ''Participant'')"

definition check3 :: "graph \<Rightarrow> vstate \<Rightarrow> vstate" where
  "check3 g st0 =
     (let st = fold (visit_participant g) (participants g)
                 ((print_line Check3Header st0)\<lparr>connection_found := False\<rparr>)
      in if \<not> connection_found st
         then print_line NoConnectionExpected (print_line NoConnection st)
         else st)"

subsection \<open>Check 4: data quality\<close>

definition spelling_step :: "triple \<Rightarrow> line list \<Rightarrow> line list" where
  "spelling_step t issues =
     (case t of (s, p, ob) \<Rightarrow>
        if isLiteral ob
        then (let label = lower (str ob)
              in if contains ''minessotta'' label then issues @ [Spelling (str ob)] else issues)
        else issues)"

definition spelling_issues :: "graph \<Rightarrow> line list" where
  "spelling_issues g = fold spelling_step (triples g (None, Some RDFS_label, None)) []"

definition circular_step :: "triple \<Rightarrow> nat \<Rightarrow> nat" where
  "circular_step t circular =
     (case t of (s, p, ob) \<Rightarrow> if str s = str ob then circular + 1 else circular)"

definition circular_count :: "graph \<Rightarrow> nat" where
  "circular_count g = fold circular_step (triples g (None, Some hasIdentifier, None)) 0"

definition find_quality_issues :: "graph \<Rightarrow> line list" where
  "find_quality_issues g =
     (let issues = spelling_issues g;
          circular = circular_count g
      in if circular > 0 then issues @ [CircularRefs circular] @ [Recommend] else issues)"

definition check4 :: "graph \<Rightarrow> vstate \<Rightarrow> vstate" where
  "check4 g st0 =
     (let st = (print_line Check4Header st0)\<lparr>quality_issues := find_quality_issues g\<rparr>
      in if quality_issues st \<noteq> []
         then fold print_line (quality_issues st) (print_line QualityIssuesFound st)
         else print_line NoQualityIssues st)"

subsection \<open>Summary\<close>

definition summary :: "vstate \<Rightarrow> vstate" where
  "summary st0 =
     (let st = print_line SummaryBanner st0;
          st' = (if passed st
                 then (let st1 = print_line AllPresent (print_line ValidationPassed st)
                       in if quality_issues st1 \<noteq> []
                          then print_line (Note (length (quality_issues st1))) st1
                          else st1)
                 else print_line MustBeFixed (print_line ValidationFailed st))
      in print_line Banner st')"

section \<open>The validation function and the command line\<close>

text \<open>The part of \<^verbatim>\<open>validate_milestone1\<close> after the graph is loaded: \<^verbatim>\<open>passed = True\<close>, then the checks.\<close>

definition run_checks :: "graph \<Rightarrow> vstate \<Rightarrow> vstate" where
  "run_checks g st = summary (check4 g (check3 g (check2 g (check1 g (st\<lparr>passed := True\<rparr>)))))"

text \<open>
  Loading is the store's work: \<open>parse\<close> maps a file name to the loaded graph, or to the message
  of the exception it raises (\<open>Inl\<close>). \<^verbatim>\<open>validate_milestone1\<close> returns the verdict; the printed
  report is returned beside it.
\<close>

definition initial :: vstate where
  "initial = \<lparr>passed = False, connection_found = False, quality_issues = [], out = []\<rparr>"

definition validate_milestone1 ::
  "(string \<Rightarrow> string + graph) \<Rightarrow> string \<Rightarrow> bool \<times> line list" where
  "validate_milestone1 parse ttl_file =
     (let st = print_line Banner (print_line Title (print_line Banner initial))
      in case parse ttl_file of
           Inl e \<Rightarrow> (False, out (print_line (ParseFailed e) st))
         | Inr g \<Rightarrow>
             (let st' = run_checks g (print_line (Loaded (length g)) st)
              in (passed st', out st')))"

text \<open>
  The script run as a program. The import guard at the top of the module comes first: when the
  store library cannot be imported the script prints an error and exits with status 1
  (\<open>rdflib_installed\<close> says whether the import succeeds). Then the body under
  \<^verbatim>\<open>__main__\<close>: \<open>argv\<close> is \<^verbatim>\<open>sys.argv\<close>; the result is the output and the exit status.
\<close>

definition main ::
  "bool \<Rightarrow> (string \<Rightarrow> string + graph) \<Rightarrow> string list \<Rightarrow> line list \<times> nat" where
  "main rdflib_installed parse argv =
     (if \<not> rdflib_installed then ([RdflibNotInstalled], 1)
      else if length argv < 2 then ([Usage], 1)
      else (case validate_milestone1 parse (argv ! 1) of
              (result, report) \<Rightarrow> (report, if result then 0 else 1)))"

section \<open>The checks as enumerations\<close>

text \<open>
  What each loop of the source computes, written as an enumeration of the graph: the lemmas
  below prove that the state-passing checks above produce exactly these lines and flags.
\<close>

definition entity_line :: "graph \<Rightarrow> string \<times> node \<Rightarrow> line" where
  "entity_line g req =
     (let count = length (subjects g RDF_type (snd req))
      in if count > 0 then EntityFound (fst req) count else EntityMissing (fst req))"

definition two_hop :: "graph \<Rightarrow> (node \<times> node \<times> node) list" where
  "two_hop g =
     concat (map (\<lambda>participant.
       concat (map (\<lambda>person.
         map (\<lambda>location. (participant, person, location)) (objects g person hasLocation))
         (objects g participant hasParticipantStructuralCharacteristic)))
       (participants g))"

definition connection_line :: "node \<times> node \<times> node \<Rightarrow> line" where
  "connection_line h =
     (if isLiteral (snd (snd h)) then ConnectionLiteral else ConnectionOK (short_name 15 (fst h)))"

definition check2_lines :: "graph \<Rightarrow> line list" where
  "check2_lines g =
     Check2Header #
       (if location_errors g \<noteq> [] then CriticalErrorsFound # location_errors g @ [FixHint]
        else [AllLocationsAreURIs])"

definition check3_lines :: "graph \<Rightarrow> line list" where
  "check3_lines g =
     Check3Header # map connection_line (two_hop g) @
       (if \<exists>h\<in>set (two_hop g). \<not> isLiteral (snd (snd h)) then []
        else [NoConnection, NoConnectionExpected])"

definition check4_lines :: "graph \<Rightarrow> line list" where
  "check4_lines g =
     Check4Header #
       (if find_quality_issues g \<noteq> [] then QualityIssuesFound # find_quality_issues g
        else [NoQualityIssues])"

definition summary_lines :: "bool \<Rightarrow> line list \<Rightarrow> line list" where
  "summary_lines ok issues =
     SummaryBanner #
       (if ok then [ValidationPassed, AllPresent] @ (if issues \<noteq> [] then [Note (length issues)] else [])
        else [ValidationFailed, MustBeFixed]) @ [Banner]"

definition verdict :: "graph \<Rightarrow> bool" where
  "verdict g \<longleftrightarrow>
     (\<forall>r\<in>set requirements. subjects g RDF_type (snd r) \<noteq> []) \<and>
     location_errors g = [] \<and>
     (\<forall>h\<in>set (two_hop g). \<not> isLiteral (snd (snd h)))"

definition checks_report :: "graph \<Rightarrow> line list" where
  "checks_report g =
     (Check1Header # map (entity_line g) requirements) @ check2_lines g @ check3_lines g @
     check4_lines g @ summary_lines (verdict g) (find_quality_issues g)"

section \<open>Blank nodes across loads\<close>

text \<open>
  The store gives every blank node of a file a fresh identifier at each load, so two loads of one
  unchanged file hold the same triples in the same order up to a one-to-one renaming of the
  blank-node identifiers. \<open>rename_bnodes r g\<close> is the graph \<open>g\<close> with each blank-node identifier
  \<open>b\<close> replaced by \<open>r b\<close>; URIs and literals are what the file says and stay as they are.
\<close>

fun rename_node :: "(string \<Rightarrow> string) \<Rightarrow> node \<Rightarrow> node" where
  "rename_node r (BNode b) = BNode (r b)"
| "rename_node r (URIRef u) = URIRef u"
| "rename_node r (Literal v lang dt) = Literal v lang dt"

definition rename_triple :: "(string \<Rightarrow> string) \<Rightarrow> triple \<Rightarrow> triple" where
  "rename_triple r t =
     (case t of (s, p, ob) \<Rightarrow> (rename_node r s, rename_node r p, rename_node r ob))"

definition rename_bnodes :: "(string \<Rightarrow> string) \<Rightarrow> graph \<Rightarrow> graph" where
  "rename_bnodes r g = map (rename_triple r) g"

fun isBNode :: "node \<Rightarrow> bool" where
  "isBNode (BNode b) = True"
| "isBNode (URIRef u) = False"
| "isBNode (Literal v lang dt) = False"

section \<open>Reading findings out of a report\<close>

text \<open>Selectors on report lines, to read one kind of finding out of a report.\<close>

fun is_location_error :: "line \<Rightarrow> bool" where
  "is_location_error (LocationError s v) = True"
| "is_location_error l = False"

fun is_connection_finding :: "line \<Rightarrow> bool" where
  "is_connection_finding ConnectionLiteral = True"
| "is_connection_finding (ConnectionOK n) = True"
| "is_connection_finding l = False"

fun is_check_header :: "line \<Rightarrow> bool" where
  "is_check_header Check1Header = True"
| "is_check_header Check2Header = True"
| "is_check_header Check3Header = True"
| "is_check_header Check4Header = True"
| "is_check_header l = False"

fun is_circular_issue :: "line \<Rightarrow> bool" where
  "is_circular_issue (CircularRefs n) = True"
| "is_circular_issue l = False"

fun is_spelling_issue :: "line \<Rightarrow> bool" where
  "is_spelling_issue (Spelling v) = True"
| "is_spelling_issue l = False"

section \<open>Sample graphs\<close>

text \<open>The second namespace of the source, used here for the identifiers of sample entities.\<close>

definition ME :: "string \<Rightarrow> node" where
  "ME name = URIRef (''https://me-nexus.com/id/'' @ name)"

text \<open>One entity of each required type, and a participant linked to a located person.\<close>

definition complete_graph :: graph where
  "complete_graph =
     [(ME ''cw1'', RDF_type, OMC ''CreativeWork''),
      (ME ''p1'', RDF_type, OMC ''Participant''),
      (ME ''h1'', RDF_type, OMC ''Person''),
      (ME ''l1'', RDF_type, OMC ''Location''),
      (ME ''a1'', RDF_type, OMC ''Asset''),
      (ME ''p1'', hasParticipantStructuralCharacteristic, ME ''h1''),
      (ME ''h1'', hasLocation, ME ''l1'')]"

text \<open>Two participants and a location, nothing else.\<close>

definition two_participants :: graph where
  "two_participants =
     [(ME ''p1'', RDF_type, OMC ''Participant''),
      (ME ''p2'', RDF_type, OMC ''Participant''),
      (ME ''l1'', RDF_type, OMC ''Location'')]"

text \<open>A participant linked to a node that has a location, with neither node typed.\<close>

definition untyped_chain :: graph where
  "untyped_chain =
     [(ME ''p1'', RDF_type, OMC ''Participant''),
      (ME ''p1'', hasParticipantStructuralCharacteristic, ME ''h1''),
      (ME ''h1'', hasLocation, ME ''l1'')]"

text \<open>The complete graph, with the person's location written as a string.\<close>

definition literal_location :: graph where
  "literal_location =
     [(ME ''cw1'', RDF_type, OMC ''CreativeWork''),
      (ME ''p1'', RDF_type, OMC ''Participant''),
      (ME ''h1'', RDF_type, OMC ''Person''),
      (ME ''l1'', RDF_type, OMC ''Location''),
      (ME ''a1'', RDF_type, OMC ''Asset''),
      (ME ''p1'', hasParticipantStructuralCharacteristic, ME ''h1''),
      (ME ''h1'', hasLocation, Literal ''Saint Paul'' None None)]"

text \<open>The five entities and no edge between them.\<close>

definition entities_only :: graph where
  "entities_only =
     [(ME ''cw1'', RDF_type, OMC ''CreativeWork''),
      (ME ''p1'', RDF_type, OMC ''Participant''),
      (ME ''h1'', RDF_type, OMC ''Person''),
      (ME ''l1'', RDF_type, OMC ''Location''),
      (ME ''a1'', RDF_type, OMC ''Asset'')]"

text \<open>
  Identifier triples: two entities that point to themselves, one entity whose identifier is a
  string equal to its own URI, and one ordinary identifier.
\<close>

definition identifier_graph :: graph where
  "identifier_graph =
     [(ME ''e1'', hasIdentifier, ME ''e1''),
      (ME ''e2'', hasIdentifier, ME ''e2''),
      (ME ''e3'', hasIdentifier, ME ''id3'')]"

definition literal_identifier :: graph where
  "literal_identifier =
     [(URIRef ''urn:e4'', hasIdentifier, Literal ''urn:e4'' None None)]"

text \<open>Labels: one misspelt in mixed case, one spelt correctly, one that is not a Literal.\<close>

definition label_graph :: graph where
  "label_graph =
     [(ME ''l1'', RDFS_label, Literal ''St Paul, MinesSOTTA'' None None),
      (ME ''l2'', RDFS_label, Literal ''Minnesota'' None None),
      (ME ''l3'', RDFS_label, ME ''minessotta'')]"




section \<open>Each check computes its enumeration\<close>

lemma print_line_sel [simp]:
  "out (print_line l st) = out st @ [l]"
  "passed (print_line l st) = passed st"
  "connection_found (print_line l st) = connection_found st"
  "quality_issues (print_line l st) = quality_issues st"
  by (simp_all add: print_line_def)

lemma fold_print_line: "fold print_line ls st = st\<lparr>out := out st @ ls\<rparr>"
  by (induction ls arbitrary: st) (simp_all add: print_line_def)

lemma triples_pred: "triples g (None, Some p, None) = filter (\<lambda>t. fst (snd t) = p) g"
  unfolding triples_def by (rule filter_cong) auto

lemma set_subjects: "set (subjects g p ob) = {s. (s, p, ob) \<in> set g}"
  by (auto simp: subjects_def triples_def image_iff)

lemma set_objects: "set (objects g s p) = {ob. (s, p, ob) \<in> set g}"
  by (auto simp: objects_def triples_def image_iff)

lemma distinct_subjects: "distinct g \<Longrightarrow> distinct (subjects g p ob)"
  unfolding subjects_def triples_def
  by (rule iffD2[OF distinct_map]) (auto simp: inj_on_def)

lemma length_subjects: "distinct g \<Longrightarrow> length (subjects g p ob) = card {s. (s, p, ob) \<in> set g}"
  using distinct_card[OF distinct_subjects, of g p ob] by (simp add: set_subjects)

lemma fold_check_entity:
  "fold (check_entity g) rs st =
     st\<lparr>passed := passed st \<and> (\<forall>r\<in>set rs. subjects g RDF_type (snd r) \<noteq> []),
        out := out st @ map (entity_line g) rs\<rparr>"
  by (induction rs arbitrary: st)
     (auto simp: check_entity_def entity_line_def print_line_def Let_def)

lemma fold_location_error_step:
  "fold location_error_step ts errs =
     errs @ map (\<lambda>t. LocationError (short_name 20 (fst t)) (str (snd (snd t))))
              (filter (\<lambda>t. isLiteral (snd (snd t))) ts)"
  by (induction ts arbitrary: errs) (auto simp: location_error_step_def)

lemma location_errors_eq:
  "location_errors g =
     map (\<lambda>t. LocationError (short_name 20 (fst t)) (str (snd (snd t))))
       (filter (\<lambda>t. fst (snd t) = hasLocation \<and> isLiteral (snd (snd t))) g)"
  by (simp add: location_errors_def fold_location_error_step triples_pred conj_commute)

lemma location_errors_depend:
  assumes "filter (\<lambda>(s, p, ob). p = hasLocation) g' = filter (\<lambda>(s, p, ob). p = hasLocation) g"
  shows "location_errors g' = location_errors g"
proof -
  have "triples h (None, Some hasLocation, None) = filter (\<lambda>(s, p, ob). p = hasLocation) h" for h
    unfolding triples_def by (rule filter_cong) auto
  then show ?thesis
    using assms by (simp add: location_errors_def)
qed

lemma fold_nested: "fold (\<lambda>x. fold f (h x)) xs st = fold f (concat (map h xs)) st"
  by (induction xs arbitrary: st) simp_all

lemma set_two_hop:
  "set (two_hop g) =
     {(p, x, l). (p, RDF_type, OMC ''Participant'') \<in> set g \<and>
                 (p, hasParticipantStructuralCharacteristic, x) \<in> set g \<and>
                 (x, hasLocation, l) \<in> set g}"
  by (auto simp: two_hop_def participants_def set_subjects set_objects)

lemma fold_visit_location:
  "fold (\<lambda>h. visit_location (fst h) (snd (snd h))) hs st =
     st\<lparr>passed := passed st \<and> (\<forall>h\<in>set hs. \<not> isLiteral (snd (snd h))),
        connection_found := connection_found st \<or> (\<exists>h\<in>set hs. \<not> isLiteral (snd (snd h))),
        out := out st @ map connection_line hs\<rparr>"
  by (induction hs arbitrary: st)
     (auto simp: visit_location_def connection_line_def print_line_def)

lemma visit_participants_two_hop:
  "fold (visit_participant g) (participants g) st =
     fold (\<lambda>h. visit_location (fst h) (snd (snd h))) (two_hop g) st"
proof -
  have person: "visit_person g p =
      (\<lambda>x. fold (\<lambda>h. visit_location (fst h) (snd (snd h)))
        (map (\<lambda>location. (p, x, location)) (objects g x hasLocation)))" for p
    by (intro ext) (simp add: visit_person_def fold_map comp_def)
  have participant: "visit_participant g =
      (\<lambda>p. fold (\<lambda>h. visit_location (fst h) (snd (snd h)))
        (concat (map (\<lambda>person. map (\<lambda>location. (p, person, location)) (objects g person hasLocation))
           (objects g p hasParticipantStructuralCharacteristic))))"
    by (intro ext) (simp add: visit_participant_def person fold_nested)
  show ?thesis
    by (simp add: participant fold_nested two_hop_def)
qed

lemma fold_spelling_step:
  "fold spelling_step ts issues =
     issues @ map (\<lambda>t. Spelling (str (snd (snd t))))
       (filter (\<lambda>t. isLiteral (snd (snd t)) \<and> contains ''minessotta'' (lower (str (snd (snd t))))) ts)"
  by (induction ts arbitrary: issues) (auto simp: spelling_step_def Let_def)

lemma spelling_issues_eq:
  "spelling_issues g =
     map (\<lambda>t. Spelling (str (snd (snd t))))
       (filter (\<lambda>t. fst (snd t) = RDFS_label \<and> isLiteral (snd (snd t)) \<and>
                     contains ''minessotta'' (lower (str (snd (snd t))))) g)"
  by (simp add: spelling_issues_def fold_spelling_step triples_pred conj_commute conj_left_commute)

lemma fold_circular_step:
  "fold circular_step ts n = n + length (filter (\<lambda>t. str (fst t) = str (snd (snd t))) ts)"
  by (induction ts arbitrary: n) (auto simp: circular_step_def)

lemma circular_count_eq:
  "circular_count g =
     length (filter (\<lambda>t. fst (snd t) = hasIdentifier \<and> str (fst t) = str (snd (snd t))) g)"
  by (simp add: circular_count_def fold_circular_step triples_pred conj_commute)

lemma check1_eq:
  "check1 g st =
     st\<lparr>passed := passed st \<and> (\<forall>r\<in>set requirements. subjects g RDF_type (snd r) \<noteq> []),
        out := out st @ Check1Header # map (entity_line g) requirements\<rparr>"
  by (simp add: check1_def fold_check_entity print_line_def)

lemma check2_eq:
  "check2 g st =
     st\<lparr>passed := passed st \<and> location_errors g = [], out := out st @ check2_lines g\<rparr>"
  by (simp add: check2_def check2_lines_def fold_print_line print_line_def Let_def)

lemma check3_eq:
  "check3 g st =
     st\<lparr>passed := passed st \<and> (\<forall>h\<in>set (two_hop g). \<not> isLiteral (snd (snd h))),
        connection_found := (\<exists>h\<in>set (two_hop g). \<not> isLiteral (snd (snd h))),
        out := out st @ check3_lines g\<rparr>"
  by (simp add: check3_def check3_lines_def visit_participants_two_hop fold_visit_location
        print_line_def Let_def)

lemma check4_eq:
  "check4 g st =
     st\<lparr>quality_issues := find_quality_issues g, out := out st @ check4_lines g\<rparr>"
  by (simp add: check4_def check4_lines_def fold_print_line print_line_def Let_def)

lemma summary_eq:
  "summary st = st\<lparr>out := out st @ summary_lines (passed st) (quality_issues st)\<rparr>"
  by (simp add: summary_def summary_lines_def print_line_def Let_def)

lemma run_checks_eq:
  "run_checks g st =
     \<lparr>passed = verdict g,
      connection_found = (\<exists>h\<in>set (two_hop g). \<not> isLiteral (snd (snd h))),
      quality_issues = find_quality_issues g,
      out = out st @ checks_report g\<rparr>"
  by (simp add: run_checks_def check1_eq check2_eq check3_eq check4_eq summary_eq
        verdict_def checks_report_def)

lemma validate_milestone1_loaded:
  "parse f = Inr g \<Longrightarrow>
     validate_milestone1 parse f =
       (verdict g, [Banner, Title, Banner, Loaded (length g)] @ checks_report g)"
  by (simp add: validate_milestone1_def run_checks_eq initial_def print_line_def)

lemma validate_milestone1_failed:
  "parse f = Inl e \<Longrightarrow>
     validate_milestone1 parse f = (False, [Banner, Title, Banner, ParseFailed e])"
  by (simp add: validate_milestone1_def initial_def print_line_def)

section \<open>The verdict as a property of the set of triples\<close>

lemmas vocab_defs = OMC_def ME_def RDF_type_def RDFS_label_def hasLocation_def
  hasParticipantStructuralCharacteristic_def hasIdentifier_def

lemma subjects_nonempty: "subjects g p ob \<noteq> [] \<longleftrightarrow> (\<exists>s. (s, p, ob) \<in> set g)"
proof -
  have "subjects g p ob \<noteq> [] \<longleftrightarrow> set (subjects g p ob) \<noteq> {}" by simp
  then show ?thesis by (auto simp: set_subjects)
qed

lemma all_present_iff:
  "(\<forall>r\<in>set requirements. subjects g RDF_type (snd r) \<noteq> []) \<longleftrightarrow>
     (\<exists>s. (s, RDF_type, OMC ''CreativeWork'') \<in> set g) \<and>
     (\<exists>s. (s, RDF_type, OMC ''Participant'') \<in> set g) \<and>
     (\<exists>s. (s, RDF_type, OMC ''Person'') \<in> set g) \<and>
     (\<exists>s. (s, RDF_type, OMC ''Location'') \<in> set g) \<and>
     (\<exists>s. (s, RDF_type, OMC ''Asset'') \<in> set g)"
  by (simp add: requirements_def subjects_nonempty)

lemma location_errors_empty_iff:
  "location_errors g = [] \<longleftrightarrow> \<not> (\<exists>s ob. (s, hasLocation, ob) \<in> set g \<and> isLiteral ob)"
  by (auto simp: location_errors_eq filter_empty_conv)

lemma no_malformed_iff:
  "(\<forall>h\<in>set (two_hop g). \<not> isLiteral (snd (snd h))) \<longleftrightarrow>
     \<not> (\<exists>p x l. (p, RDF_type, OMC ''Participant'') \<in> set g \<and>
                 (p, hasParticipantStructuralCharacteristic, x) \<in> set g \<and>
                 (x, hasLocation, l) \<in> set g \<and> isLiteral l)"
  by (auto simp: set_two_hop)

lemma verdict_set:
  "verdict g \<longleftrightarrow>
     ((\<exists>s. (s, RDF_type, OMC ''CreativeWork'') \<in> set g) \<and>
      (\<exists>s. (s, RDF_type, OMC ''Participant'') \<in> set g) \<and>
      (\<exists>s. (s, RDF_type, OMC ''Person'') \<in> set g) \<and>
      (\<exists>s. (s, RDF_type, OMC ''Location'') \<in> set g) \<and>
      (\<exists>s. (s, RDF_type, OMC ''Asset'') \<in> set g)) \<and>
     \<not> (\<exists>s ob. (s, hasLocation, ob) \<in> set g \<and> isLiteral ob) \<and>
     \<not> (\<exists>p x l. (p, RDF_type, OMC ''Participant'') \<in> set g \<and>
                 (p, hasParticipantStructuralCharacteristic, x) \<in> set g \<and>
                 (x, hasLocation, l) \<in> set g \<and> isLiteral l)"
  unfolding verdict_def all_present_iff location_errors_empty_iff no_malformed_iff by simp

lemma verdict_other_predicate:
  assumes "p \<noteq> RDF_type" and "p \<noteq> hasLocation" and "p \<noteq> hasParticipantStructuralCharacteristic"
  shows "verdict ((s, p, ob) # g) = verdict g"
  using assms unfolding verdict_set by simp

lemma verdict_identifier_triple: "verdict ((s, hasIdentifier, ob) # g) = verdict g"
  by (rule verdict_other_predicate) (simp_all add: vocab_defs)

lemma verdict_label_triple: "verdict ((s, RDFS_label, ob) # g) = verdict g"
  by (rule verdict_other_predicate) (simp_all add: vocab_defs)

section \<open>The findings of one kind in a report\<close>

lemma filter_entity_lines:
  assumes "\<And>n c. \<not> P (EntityFound n c)" and "\<And>n. \<not> P (EntityMissing n)"
  shows "filter P (map (entity_line g) rs) = []"
  using assms by (auto simp: filter_empty_conv entity_line_def Let_def)

lemma filter_location_errors_none:
  assumes "\<And>s v. \<not> P (LocationError s v)"
  shows "filter P (location_errors g) = []"
  using assms by (auto simp: location_errors_eq filter_empty_conv)

lemma filter_location_errors_all:
  assumes "\<And>s v. P (LocationError s v)"
  shows "filter P (location_errors g) = location_errors g"
  using assms by (auto simp: location_errors_eq filter_id_conv)

lemma filter_spelling_none:
  assumes "\<And>v. \<not> P (Spelling v)"
  shows "filter P (spelling_issues g) = []"
  using assms by (auto simp: spelling_issues_eq filter_empty_conv)

lemma filter_spelling_all:
  assumes "\<And>v. P (Spelling v)"
  shows "filter P (spelling_issues g) = spelling_issues g"
  using assms by (auto simp: spelling_issues_eq filter_id_conv)

lemma filter_quality_issues_none:
  assumes "\<And>v. \<not> P (Spelling v)" and "\<And>n. \<not> P (CircularRefs n)" and "\<not> P Recommend"
  shows "filter P (find_quality_issues g) = []"
  using assms by (auto simp: find_quality_issues_def spelling_issues_eq filter_empty_conv Let_def)

lemma filter_connection_lines_none:
  assumes "\<not> P ConnectionLiteral" and "\<And>n. \<not> P (ConnectionOK n)"
  shows "filter P (map connection_line hs) = []"
  using assms by (auto simp: connection_line_def filter_empty_conv)

lemma filter_connection_lines_all:
  assumes "P ConnectionLiteral" and "\<And>n. P (ConnectionOK n)"
  shows "filter P (map connection_line hs) = map connection_line hs"
  using assms by (auto simp: connection_line_def filter_id_conv)

lemma filter_location_error_report:
  "filter is_location_error (checks_report g) = location_errors g"
  by (simp add: checks_report_def check2_lines_def check3_lines_def check4_lines_def
        summary_lines_def filter_entity_lines filter_location_errors_all
        filter_quality_issues_none filter_connection_lines_none)

lemma filter_connection_report:
  "filter is_connection_finding (checks_report g) = map connection_line (two_hop g)"
  by (simp add: checks_report_def check2_lines_def check3_lines_def check4_lines_def
        summary_lines_def filter_entity_lines filter_location_errors_none
        filter_quality_issues_none filter_connection_lines_all)

lemma filter_header_report:
  "filter is_check_header (checks_report g) =
     [Check1Header, Check2Header, Check3Header, Check4Header]"
  by (simp add: checks_report_def check2_lines_def check3_lines_def check4_lines_def
        summary_lines_def filter_entity_lines filter_location_errors_none
        filter_quality_issues_none filter_connection_lines_none)

lemma filter_circular_report:
  "filter is_circular_issue (checks_report g) =
     (if 0 < circular_count g then [CircularRefs (circular_count g)] else [])"
  by (simp add: checks_report_def check2_lines_def check3_lines_def check4_lines_def
        summary_lines_def filter_entity_lines filter_location_errors_none
        filter_connection_lines_none find_quality_issues_def filter_spelling_none Let_def)

lemma filter_spelling_report:
  "filter is_spelling_issue (checks_report g) = spelling_issues g"
  by (simp add: checks_report_def check2_lines_def check3_lines_def check4_lines_def
        summary_lines_def filter_entity_lines filter_location_errors_none
        filter_connection_lines_none find_quality_issues_def filter_spelling_all Let_def)

lemma connection_ok_in_report:
  "ConnectionOK n \<in> set (checks_report g) \<longleftrightarrow>
     (\<exists>h\<in>set (two_hop g). \<not> isLiteral (snd (snd h)) \<and> n = short_name 15 (fst h))"
proof -
  have "ConnectionOK n \<in> set (checks_report g) \<longleftrightarrow>
          ConnectionOK n \<in> set (filter is_connection_finding (checks_report g))"
    by simp
  also have "\<dots> \<longleftrightarrow> ConnectionOK n \<in> set (map connection_line (two_hop g))"
    by (simp only: filter_connection_report)
  also have "\<dots> \<longleftrightarrow> (\<exists>h\<in>set (two_hop g). \<not> isLiteral (snd (snd h)) \<and> n = short_name 15 (fst h))"
    by (auto simp: connection_line_def image_iff)
  finally show ?thesis .
qed

lemma no_connection_in_report:
  "NoConnection \<in> set (checks_report g) \<longleftrightarrow> \<not> (\<exists>h\<in>set (two_hop g). \<not> isLiteral (snd (snd h)))"
  by (auto simp: checks_report_def check2_lines_def check3_lines_def check4_lines_def
        summary_lines_def entity_line_def location_errors_eq connection_line_def
        find_quality_issues_def spelling_issues_eq Let_def)

lemma short_name_p1: "short_name n (ME ''p1'') = take n ''p1''"
  by (simp add: short_name_def ME_def)

lemma short_name_h1: "short_name n (ME ''h1'') = take n ''h1''"
  by (simp add: short_name_def ME_def)

section \<open>Searching a lower-cased text\<close>

lemma starts_with_prefix: "starts_with p s \<longleftrightarrow> prefix p s"
  by (induction p s rule: starts_with.induct) auto

lemma contains_sublist: "contains p s \<longleftrightarrow> sublist p s"
  by (induction s) (auto simp: starts_with_prefix sublist_Cons_right)

lemma sublist_map_iff: "sublist p (map f s) \<longleftrightarrow> (\<exists>w. sublist w s \<and> map f w = p)"
proof
  assume "sublist p (map f s)"
  then obtain a c where "map f s = a @ p @ c" by (auto simp: sublist_def)
  then obtain us vs where s: "s = us @ vs" and "map f vs = p @ c"
    by (metis map_eq_append_conv)
  then obtain w c' where vs: "vs = w @ c'" and w: "map f w = p"
    by (metis map_eq_append_conv)
  have "sublist w s" unfolding s vs by simp
  with w show "\<exists>w. sublist w s \<and> map f w = p" by blast
next
  assume "\<exists>w. sublist w s \<and> map f w = p"
  then show "sublist p (map f s)" by (auto intro: map_mono_sublist)
qed

lemma contains_any_case:
  "contains pat (lower v) \<longleftrightarrow> (\<exists>w. sublist w v \<and> lower w = pat)"
  by (simp add: contains_sublist lower_def sublist_map_iff)

section \<open>The checks under a renaming of blank nodes\<close>





lemma isLiteral_rename [simp]: "isLiteral (rename_node r x) = isLiteral x"
  by (cases x) simp_all

lemma isBNode_rename [simp]: "isBNode (rename_node r x) = isBNode x"
  by (cases x) simp_all


lemma vocabulary_not_bnode [simp]:
  "\<not> isBNode (OMC n)" "\<not> isBNode RDF_type" "\<not> isBNode RDFS_label" "\<not> isBNode hasLocation"
  "\<not> isBNode hasParticipantStructuralCharacteristic" "\<not> isBNode hasIdentifier"
  by (simp_all add: vocab_defs)

lemma length_rename [simp]: "length (rename_bnodes r g) = length g"
  by (simp add: rename_bnodes_def)











section \<open>Check 1: entity presence\<close>

text \<open>
  Claim C5. For a loaded graph, the five lines that follow the header of check 1 are, for each
  required name in turn, the count of distinct subjects \<open>s\<close> with a triple
  \<open>(s, type, requiredType)\<close> when that count is positive, and the name reported as missing
  otherwise: one line for every name, whatever the earlier names gave. A name with count zero
  makes the verdict false.
\<close>

theorem entity_presence:
  assumes "parse ttl_file = Inr g" and "distinct g"
  shows "take 5 (drop 5 (snd (validate_milestone1 parse ttl_file))) =
           map (\<lambda>(name, entity_type).
                  if card {s. (s, RDF_type, entity_type) \<in> set g} > 0
                  then EntityFound name (card {s. (s, RDF_type, entity_type) \<in> set g})
                  else EntityMissing name) requirements
         \<and> ((\<exists>(name, entity_type) \<in> set requirements.
                card {s. (s, RDF_type, entity_type) \<in> set g} = 0)
              \<longrightarrow> \<not> fst (validate_milestone1 parse ttl_file))"
proof -
  have count: "length (subjects g RDF_type t) = card {s. (s, RDF_type, t) \<in> set g}" for t
    using assms(2) by (rule length_subjects)
  have lines: "take 5 (drop 5 (snd (validate_milestone1 parse ttl_file))) =
                 map (entity_line g) requirements"
    using assms(1) by (simp add: validate_milestone1_loaded checks_report_def requirements_def)
  have "map (entity_line g) requirements =
          map (\<lambda>(name, entity_type).
                  if card {s. (s, RDF_type, entity_type) \<in> set g} > 0
                  then EntityFound name (card {s. (s, RDF_type, entity_type) \<in> set g})
                  else EntityMissing name) requirements"
    by (rule map_cong) (auto simp: entity_line_def count Let_def)
  moreover have "\<not> fst (validate_milestone1 parse ttl_file)"
    if "\<exists>(name, entity_type) \<in> set requirements.
          card {s. (s, RDF_type, entity_type) \<in> set g} = 0"
  proof -
    from that obtain r where "r \<in> set requirements" "subjects g RDF_type (snd r) = []"
      by (auto simp: count[symmetric])
    then show ?thesis
      using assms(1) by (auto simp: validate_milestone1_loaded verdict_def)
  qed
  ultimately show ?thesis using lines by simp
qed

text \<open>Two participants, one location, three types missing: five lines and a failed verdict.\<close>

theorem entity_presence_witness:
  "take 5 (drop 5 (snd (validate_milestone1 (\<lambda>f. Inr two_participants) ''m1.ttl''))) =
     [EntityMissing ''CreativeWork'', EntityFound ''Participant'' 2, EntityMissing ''Person'',
      EntityFound ''Location'' 1, EntityMissing ''Asset'']
   \<and> \<not> fst (validate_milestone1 (\<lambda>f. Inr two_participants) ''m1.ttl'')"
proof -
  have loaded: "(\<lambda>f. Inr two_participants) ''m1.ttl'' = Inr two_participants" by simp
  have dist: "distinct two_participants"
    by (simp add: two_participants_def vocab_defs)
  have c0: "card {s. (s, RDF_type, OMC ''CreativeWork'') \<in> set two_participants} = 0"
    by (simp add: two_participants_def vocab_defs)
  have "{s. (s, RDF_type, OMC ''Participant'') \<in> set two_participants} = {ME ''p1'', ME ''p2''}"
    by (auto simp: two_participants_def vocab_defs)
  then have c1: "card {s. (s, RDF_type, OMC ''Participant'') \<in> set two_participants} = 2"
    by (simp add: vocab_defs)
  have c2: "card {s. (s, RDF_type, OMC ''Person'') \<in> set two_participants} = 0"
    by (simp add: two_participants_def vocab_defs)
  have "{s. (s, RDF_type, OMC ''Location'') \<in> set two_participants} = {ME ''l1''}"
    by (auto simp: two_participants_def vocab_defs)
  then have c3: "card {s. (s, RDF_type, OMC ''Location'') \<in> set two_participants} = 1"
    by simp
  have c4: "card {s. (s, RDF_type, OMC ''Asset'') \<in> set two_participants} = 0"
    by (simp add: two_participants_def vocab_defs)
  show ?thesis
    using entity_presence [OF loaded dist]
    by (simp add: requirements_def c0 c1 c2 c3 c4)
qed

section \<open>Check 2: reference kind\<close>

text \<open>
  Claim C4. For a loaded graph, the errors recorded by check 2 are one for each triple with
  predicate \<^verbatim>\<open>hasLocation\<close> and a Literal object, in the order of the triples, and these are the
  location-error lines of the report. When every \<^verbatim>\<open>hasLocation\<close> object is a Resource there is no
  error; when one is a Literal there is an error and the verdict is false. The errors depend on
  the \<^verbatim>\<open>hasLocation\<close> triples alone: no other triple, such as the typing of the referenced
  location, changes them.
\<close>

theorem reference_kind:
  assumes "parse ttl_file = Inr g"
  shows "location_errors g =
           map (\<lambda>(s, p, ob). LocationError (short_name 20 s) (str ob))
             (filter (\<lambda>(s, p, ob). p = hasLocation \<and> isLiteral ob) g)
       \<and> filter is_location_error (snd (validate_milestone1 parse ttl_file)) = location_errors g
       \<and> ((\<forall>s ob. (s, hasLocation, ob) \<in> set g \<longrightarrow> \<not> isLiteral ob) \<longrightarrow> location_errors g = [])
       \<and> ((\<exists>s ob. (s, hasLocation, ob) \<in> set g \<and> isLiteral ob) \<longrightarrow>
            location_errors g \<noteq> [] \<and> \<not> fst (validate_milestone1 parse ttl_file))
       \<and> (\<forall>g'. filter (\<lambda>(s, p, ob). p = hasLocation) g' = filter (\<lambda>(s, p, ob). p = hasLocation) g
              \<longrightarrow> location_errors g' = location_errors g)"
proof -
  note loaded = validate_milestone1_loaded [of parse ttl_file g, OF assms]
  have errs: "location_errors g =
           map (\<lambda>(s, p, ob). LocationError (short_name 20 s) (str ob))
             (filter (\<lambda>(s, p, ob). p = hasLocation \<and> isLiteral ob) g)"
    by (simp add: location_errors_eq case_prod_unfold)
  have report: "filter is_location_error (snd (validate_milestone1 parse ttl_file)) = location_errors g"
    by (simp add: loaded filter_location_error_report)
  have none: "(\<forall>s ob. (s, hasLocation, ob) \<in> set g \<longrightarrow> \<not> isLiteral ob) \<longrightarrow> location_errors g = []"
    unfolding location_errors_empty_iff by blast
  have some: "(\<exists>s ob. (s, hasLocation, ob) \<in> set g \<and> isLiteral ob) \<longrightarrow>
            location_errors g \<noteq> [] \<and> \<not> fst (validate_milestone1 parse ttl_file)"
    unfolding loaded fst_conv verdict_def location_errors_empty_iff by blast
  have depend: "\<forall>g'. filter (\<lambda>(s, p, ob). p = hasLocation) g' = filter (\<lambda>(s, p, ob). p = hasLocation) g
              \<longrightarrow> location_errors g' = location_errors g"
    using location_errors_depend by blast
  from errs report none some depend show ?thesis by blast
qed

text \<open>
  The complete graph has no error. With the location written as a string there is one error,
  for that triple, and the run fails; the same error is found when only the
  \<^verbatim>\<open>hasLocation\<close> triple is kept.
\<close>

theorem reference_kind_witness:
  "location_errors complete_graph = [] \<and>
   location_errors literal_location = [LocationError ''h1'' ''Saint Paul''] \<and>
   \<not> fst (validate_milestone1 (\<lambda>f. Inr literal_location) ''m1.ttl'') \<and>
   location_errors [(ME ''h1'', hasLocation, Literal ''Saint Paul'' None None)] =
     location_errors literal_location"
proof -
  have a: "\<forall>s ob. (s, hasLocation, ob) \<in> set complete_graph \<longrightarrow> \<not> isLiteral ob"
    by (simp add: complete_graph_def vocab_defs)
  have b: "\<exists>s ob. (s, hasLocation, ob) \<in> set literal_location \<and> isLiteral ob"
    by (rule exI[of _ "ME ''h1''"], rule exI[of _ "Literal ''Saint Paul'' None None"])
       (simp add: literal_location_def)
  have c: "filter (\<lambda>(s, p, ob). p = hasLocation) literal_location =
             [(ME ''h1'', hasLocation, Literal ''Saint Paul'' None None)]"
    by (simp add: literal_location_def vocab_defs)
  have d: "filter (\<lambda>(s, p, ob). p = hasLocation \<and> isLiteral ob) literal_location =
             [(ME ''h1'', hasLocation, Literal ''Saint Paul'' None None)]"
    by (simp add: literal_location_def vocab_defs)
  have f: "filter (\<lambda>(s, p, ob). p = hasLocation \<and> isLiteral ob) complete_graph = []"
    by (simp add: complete_graph_def vocab_defs)
  have e: "filter (\<lambda>(s, p, ob). p = hasLocation)
             [(ME ''h1'', hasLocation, Literal ''Saint Paul'' None None)] =
           [(ME ''h1'', hasLocation, Literal ''Saint Paul'' None None)]"
    by simp
  show ?thesis
    using reference_kind [of "\<lambda>f. Inr complete_graph" "''m1.ttl''" complete_graph, OF refl]
      reference_kind [of "\<lambda>f. Inr literal_location" "''m1.ttl''" literal_location, OF refl]
      a b
    by (simp add: c d e f short_name_h1)
qed

section \<open>Check 3: the two-hop connection\<close>

text \<open>
  Claim C2, as the source has it. The report of a loaded graph holds a success line for the
  short name \<open>n\<close> exactly when some subject \<open>p\<close> typed Participant with that short name has a
  \<^verbatim>\<open>hasParticipantStructuralCharacteristic\<close> edge to some node \<open>x\<close> which has a \<^verbatim>\<open>hasLocation\<close> edge
  to a value \<open>l\<close> that is not a Literal. The types of \<open>x\<close> and \<open>l\<close> are not looked at.
\<close>

theorem connection_recorded_iff:
  assumes "parse ttl_file = Inr g"
  shows "ConnectionOK n \<in> set (snd (validate_milestone1 parse ttl_file)) \<longleftrightarrow>
     (\<exists>p x l. (p, RDF_type, OMC ''Participant'') \<in> set g \<and>
              (p, hasParticipantStructuralCharacteristic, x) \<in> set g \<and>
              (x, hasLocation, l) \<in> set g \<and> \<not> isLiteral l \<and> n = short_name 15 p)"
proof -
  have "ConnectionOK n \<in> set (snd (validate_milestone1 parse ttl_file)) \<longleftrightarrow>
          ConnectionOK n \<in> set (checks_report g)"
    using assms by (simp add: validate_milestone1_loaded)
  then show ?thesis
    by (auto simp: connection_ok_in_report set_two_hop)
qed

text \<open>The complete sample graph records the connection of its participant.\<close>

theorem connection_recorded_iff_witness:
  "ConnectionOK ''p1'' \<in> set (snd (validate_milestone1 (\<lambda>f. Inr complete_graph) ''m1.ttl''))"
proof -
  have "(ME ''p1'', RDF_type, OMC ''Participant'') \<in> set complete_graph \<and>
        (ME ''p1'', hasParticipantStructuralCharacteristic, ME ''h1'') \<in> set complete_graph \<and>
        (ME ''h1'', hasLocation, ME ''l1'') \<in> set complete_graph \<and>
        \<not> isLiteral (ME ''l1'') \<and> ''p1'' = short_name 15 (ME ''p1'')"
    by (simp add: complete_graph_def short_name_p1) (simp add: ME_def)
  then show ?thesis
    unfolding connection_recorded_iff [of "\<lambda>f. Inr complete_graph" "''m1.ttl''" complete_graph, OF refl]
    by blast
qed

text \<open>
  The claim as written fails: a connection is recorded through an intermediate node that is
  not typed Person, to a target that is not typed Location.
\<close>

theorem connection_typed_counterexample:
  "ConnectionOK ''p1'' \<in> set (snd (validate_milestone1 (\<lambda>f. Inr untyped_chain) ''m1.ttl'')) \<and>
   objects untyped_chain (ME ''p1'') hasParticipantStructuralCharacteristic = [ME ''h1''] \<and>
   objects untyped_chain (ME ''h1'') hasLocation = [ME ''l1''] \<and>
   (ME ''h1'', RDF_type, OMC ''Person'') \<notin> set untyped_chain \<and>
   (ME ''l1'', RDF_type, OMC ''Location'') \<notin> set untyped_chain"
proof -
  have hop: "two_hop untyped_chain = [(ME ''p1'', ME ''h1'', ME ''l1'')]"
    by (simp add: two_hop_def participants_def subjects_def objects_def triples_def
          untyped_chain_def vocab_defs)
  have "ConnectionOK ''p1'' \<in> set (checks_report untyped_chain)"
    unfolding connection_ok_in_report hop by (simp add: short_name_p1) (simp add: ME_def)
  moreover have "objects untyped_chain (ME ''p1'') hasParticipantStructuralCharacteristic = [ME ''h1'']"
    by (simp add: objects_def triples_def untyped_chain_def vocab_defs)
  moreover have "objects untyped_chain (ME ''h1'') hasLocation = [ME ''l1'']"
    by (simp add: objects_def triples_def untyped_chain_def vocab_defs)
  moreover have "(ME ''h1'', RDF_type, OMC ''Person'') \<notin> set untyped_chain"
    by (simp add: untyped_chain_def vocab_defs)
  moreover have "(ME ''l1'', RDF_type, OMC ''Location'') \<notin> set untyped_chain"
    by (simp add: untyped_chain_def vocab_defs)
  ultimately show ?thesis
    by (simp add: validate_milestone1_loaded)
qed

text \<open>
  Claim C3. For a loaded graph, \<open>two_hop g\<close> lists every \<open>(p, x, l)\<close> with \<open>p\<close> typed Participant,
  \<open>x\<close> reached from \<open>p\<close> by \<^verbatim>\<open>hasParticipantStructuralCharacteristic\<close> and \<open>l\<close> reached from \<open>x\<close> by
  \<^verbatim>\<open>hasLocation\<close>. The connection findings of the report are, in that order, a malformed-connection
  line for each Literal end and a success line for each other end. Any Literal end makes the
  verdict false. The no-connection warning is printed exactly when no success was recorded, and a
  run that prints it still passes when the five types are present and no \<^verbatim>\<open>hasLocation\<close> object is
  a Literal.
\<close>

theorem path_connectivity:
  assumes "parse ttl_file = Inr g"
  shows "set (two_hop g) =
           {(p, x, l). (p, RDF_type, OMC ''Participant'') \<in> set g \<and>
                       (p, hasParticipantStructuralCharacteristic, x) \<in> set g \<and>
                       (x, hasLocation, l) \<in> set g}
       \<and> filter is_connection_finding (snd (validate_milestone1 parse ttl_file)) =
           map (\<lambda>(p, x, l). if isLiteral l then ConnectionLiteral
                            else ConnectionOK (short_name 15 p)) (two_hop g)
       \<and> ((\<exists>(p, x, l) \<in> set (two_hop g). isLiteral l) \<longrightarrow>
            \<not> fst (validate_milestone1 parse ttl_file))
       \<and> (NoConnection \<in> set (snd (validate_milestone1 parse ttl_file)) \<longleftrightarrow>
            \<not> (\<exists>(p, x, l) \<in> set (two_hop g). \<not> isLiteral l))
       \<and> (NoConnection \<in> set (snd (validate_milestone1 parse ttl_file)) \<and>
          (\<exists>s. (s, RDF_type, OMC ''CreativeWork'') \<in> set g) \<and>
          (\<exists>s. (s, RDF_type, OMC ''Participant'') \<in> set g) \<and>
          (\<exists>s. (s, RDF_type, OMC ''Person'') \<in> set g) \<and>
          (\<exists>s. (s, RDF_type, OMC ''Location'') \<in> set g) \<and>
          (\<exists>s. (s, RDF_type, OMC ''Asset'') \<in> set g) \<and>
          \<not> (\<exists>s ob. (s, hasLocation, ob) \<in> set g \<and> isLiteral ob)
          \<longrightarrow> fst (validate_milestone1 parse ttl_file))"
proof -
  note loaded = validate_milestone1_loaded [of parse ttl_file g, OF assms]
  have findings: "filter is_connection_finding (snd (validate_milestone1 parse ttl_file)) =
      map (\<lambda>(p, x, l). if isLiteral l then ConnectionLiteral
                       else ConnectionOK (short_name 15 p)) (two_hop g)"
  proof -
    have "map connection_line (two_hop g) =
            map (\<lambda>(p, x, l). if isLiteral l then ConnectionLiteral
                             else ConnectionOK (short_name 15 p)) (two_hop g)"
      by (rule map_cong) (auto simp: connection_line_def)
    then show ?thesis by (simp add: loaded filter_connection_report)
  qed
  have malformed: "(\<exists>(p, x, l) \<in> set (two_hop g). isLiteral l) \<longrightarrow>
      \<not> fst (validate_milestone1 parse ttl_file)"
    by (fastforce simp: loaded verdict_def)
  have warning: "NoConnection \<in> set (snd (validate_milestone1 parse ttl_file)) \<longleftrightarrow>
      \<not> (\<exists>(p, x, l) \<in> set (two_hop g). \<not> isLiteral l)"
    by (auto simp: loaded no_connection_in_report)
  have advisory: "(\<exists>s. (s, RDF_type, OMC ''CreativeWork'') \<in> set g) \<and>
          (\<exists>s. (s, RDF_type, OMC ''Participant'') \<in> set g) \<and>
          (\<exists>s. (s, RDF_type, OMC ''Person'') \<in> set g) \<and>
          (\<exists>s. (s, RDF_type, OMC ''Location'') \<in> set g) \<and>
          (\<exists>s. (s, RDF_type, OMC ''Asset'') \<in> set g) \<and>
          \<not> (\<exists>s ob. (s, hasLocation, ob) \<in> set g \<and> isLiteral ob)
          \<longrightarrow> fst (validate_milestone1 parse ttl_file)"
    unfolding loaded fst_conv verdict_def all_present_iff location_errors_empty_iff no_malformed_iff
    by blast
  show ?thesis
    using set_two_hop [of g] findings malformed warning advisory by blast
qed

text \<open>
  With the five entities and no edge the warning is printed and the run passes; with the
  location written as a string the defect is recorded and the run fails.
\<close>

theorem path_connectivity_witness:
  "NoConnection \<in> set (snd (validate_milestone1 (\<lambda>f. Inr entities_only) ''m1.ttl'')) \<and>
   fst (validate_milestone1 (\<lambda>f. Inr entities_only) ''m1.ttl'') \<and>
   filter is_connection_finding (snd (validate_milestone1 (\<lambda>f. Inr literal_location) ''m1.ttl''))
     = [ConnectionLiteral] \<and>
   \<not> fst (validate_milestone1 (\<lambda>f. Inr literal_location) ''m1.ttl'')"
proof -
  have hop1: "two_hop entities_only = []"
    by (simp add: two_hop_def participants_def subjects_def objects_def triples_def
          entities_only_def vocab_defs)
  have hop2: "two_hop literal_location = [(ME ''p1'', ME ''h1'', Literal ''Saint Paul'' None None)]"
    by (simp add: two_hop_def participants_def subjects_def objects_def triples_def
          literal_location_def vocab_defs)
  have present: "(\<exists>s. (s, RDF_type, OMC ''CreativeWork'') \<in> set entities_only) \<and>
          (\<exists>s. (s, RDF_type, OMC ''Participant'') \<in> set entities_only) \<and>
          (\<exists>s. (s, RDF_type, OMC ''Person'') \<in> set entities_only) \<and>
          (\<exists>s. (s, RDF_type, OMC ''Location'') \<in> set entities_only) \<and>
          (\<exists>s. (s, RDF_type, OMC ''Asset'') \<in> set entities_only) \<and>
          \<not> (\<exists>s ob. (s, hasLocation, ob) \<in> set entities_only \<and> isLiteral ob)"
    by (simp add: entities_only_def vocab_defs)
  show ?thesis
    using path_connectivity [of "\<lambda>f. Inr entities_only" "''m1.ttl''" entities_only, OF refl]
      path_connectivity [of "\<lambda>f. Inr literal_location" "''m1.ttl''" literal_location, OF refl]
      present
    by (simp add: hop1 hop2)
qed

section \<open>Check 4: data quality\<close>

text \<open>
  Claim C7, as the source has it. For a loaded graph, the circularity count is the number of
  triples with predicate \<^verbatim>\<open>hasIdentifier\<close> whose subject and object have the same text
  (\<^verbatim>\<open>str(s) == str(o)\<close>); every such triple whose subject equals its object is among them. The
  report holds one line stating the count when the count is positive and none otherwise. A graph
  without duplicates whose matching identifier triples are \<open>(X, hasIdentifier, X)\<close> for two
  distinct \<open>X\<close> has count 2. An identifier triple never changes the verdict.
\<close>

theorem circularity_count:
  assumes "parse ttl_file = Inr g"
  shows "circular_count g =
           length (filter (\<lambda>(s, p, ob). p = hasIdentifier \<and> str s = str ob) g)
       \<and> length (filter (\<lambda>(s, p, ob). p = hasIdentifier \<and> s = ob) g) \<le> circular_count g
       \<and> filter is_circular_issue (snd (validate_milestone1 parse ttl_file)) =
           (if 0 < circular_count g then [CircularRefs (circular_count g)] else [])
       \<and> (distinct g \<and> X \<noteq> Y \<and>
          {(s, p, ob). (s, p, ob) \<in> set g \<and> p = hasIdentifier \<and> str s = str ob} =
            {(X, hasIdentifier, X), (Y, hasIdentifier, Y)}
          \<longrightarrow> circular_count g = 2)
       \<and> fst (validate_milestone1 (\<lambda>f. Inr ((s', hasIdentifier, ob') # g)) ttl_file) =
           fst (validate_milestone1 parse ttl_file)"
proof -
  note loaded = validate_milestone1_loaded [of parse ttl_file g, OF assms]
  have count: "circular_count g =
           length (filter (\<lambda>(s, p, ob). p = hasIdentifier \<and> str s = str ob) g)"
    by (simp add: circular_count_eq case_prod_unfold)
  have self: "length (filter (\<lambda>(s, p, ob). p = hasIdentifier \<and> s = ob) g) \<le> circular_count g"
  proof -
    have "filter (\<lambda>(s, p, ob). p = hasIdentifier \<and> s = ob) g =
          filter (\<lambda>(s, p, ob). s = ob)
            (filter (\<lambda>(s, p, ob). p = hasIdentifier \<and> str s = str ob) g)"
      by (auto simp: case_prod_unfold intro: filter_cong)
    then show ?thesis
      unfolding count by (metis length_filter_le)
  qed
  have issue: "filter is_circular_issue (snd (validate_milestone1 parse ttl_file)) =
           (if 0 < circular_count g then [CircularRefs (circular_count g)] else [])"
    by (simp add: loaded filter_circular_report)
  have two: "circular_count g = 2"
    if "distinct g" and "X \<noteq> Y" and
       m: "{(s, p, ob). (s, p, ob) \<in> set g \<and> p = hasIdentifier \<and> str s = str ob} =
            {(X, hasIdentifier, X), (Y, hasIdentifier, Y)}"
  proof -
    let ?ms = "filter (\<lambda>(s, p, ob). p = hasIdentifier \<and> str s = str ob) g"
    have "distinct ?ms" using that(1) by simp
    then have len: "length ?ms = card (set ?ms)" by (rule distinct_card [symmetric])
    have "set ?ms =
        {(s, p, ob). (s, p, ob) \<in> set g \<and> p = hasIdentifier \<and> str s = str ob}"
      by auto
    then have elems: "set ?ms = {(X, hasIdentifier, X), (Y, hasIdentifier, Y)}"
      unfolding m .
    have "card {(X, hasIdentifier, X), (Y, hasIdentifier, Y)} = 2"
      using that(2) by simp
    then show ?thesis by (simp only: count len elems)
  qed
  have advisory: "fst (validate_milestone1 (\<lambda>f. Inr ((s', hasIdentifier, ob') # g)) ttl_file) =
           fst (validate_milestone1 parse ttl_file)"
    by (simp add: loaded validate_milestone1_loaded verdict_identifier_triple)
  from count self issue two advisory show ?thesis by blast
qed

text \<open>The sample identifier graph has two self-referential triples: count 2, one line.\<close>

theorem circularity_count_witness:
  "circular_count identifier_graph = 2 \<and>
   filter is_circular_issue (snd (validate_milestone1 (\<lambda>f. Inr identifier_graph) ''m1.ttl'')) =
     [CircularRefs 2]"
proof -
  have d: "distinct identifier_graph"
    by (simp add: identifier_graph_def vocab_defs)
  have n: "ME ''e1'' \<noteq> ME ''e2''" by (simp add: ME_def)
  have m: "{(s, p, ob). (s, p, ob) \<in> set identifier_graph \<and> p = hasIdentifier \<and> str s = str ob} =
             {(ME ''e1'', hasIdentifier, ME ''e1''), (ME ''e2'', hasIdentifier, ME ''e2'')}"
    by (auto simp: identifier_graph_def ME_def)
  note t = circularity_count [of "\<lambda>f. Inr identifier_graph" "''m1.ttl''" identifier_graph
      "ME ''e1''" "ME ''e2''", OF refl]
  from t d n m have c: "circular_count identifier_graph = 2" by blast
  from t have "filter is_circular_issue
      (snd (validate_milestone1 (\<lambda>f. Inr identifier_graph) ''m1.ttl'')) =
      (if 0 < circular_count identifier_graph then [CircularRefs (circular_count identifier_graph)]
       else [])" by blast
  with c show ?thesis by simp
qed

text \<open>
  The claim as written fails: the only identifier triple of this graph has a Literal object,
  which is not equal to its subject, and it is counted.
\<close>

theorem circularity_equality_counterexample:
  "circular_count [(URIRef ''urn:e4'', hasIdentifier, Literal ''urn:e4'' None None)] = 1 \<and>
   URIRef ''urn:e4'' \<noteq> Literal ''urn:e4'' None None"
  by (simp add: circular_count_def circular_step_def triples_def)

text \<open>
  Claim C10. The circularity check compares the texts of subject and object: wherever it stands
  in the graph, a \<^verbatim>\<open>hasIdentifier\<close> triple adds one to the count exactly when \<^verbatim>\<open>str\<close> gives the same
  text for both, and a triple with another predicate adds nothing. So a triple whose object is a
  Literal with the text of the subject's URI is counted, although that object is a Literal and
  not the subject, and a Literal with any other text is not.
\<close>

theorem literal_identifier_counted:
  "circular_count (g1 @ (s, hasIdentifier, ob) # g2) =
     circular_count (g1 @ g2) + (if str s = str ob then 1 else 0)
   \<and> (p \<noteq> hasIdentifier \<longrightarrow>
        circular_count (g1 @ (s, p, ob) # g2) = circular_count (g1 @ g2))
   \<and> circular_count (g1 @ (URIRef u, hasIdentifier, Literal u lang dt) # g2) =
        circular_count (g1 @ g2) + 1
   \<and> (v \<noteq> u \<longrightarrow>
        circular_count (g1 @ (URIRef u, hasIdentifier, Literal v lang dt) # g2) =
          circular_count (g1 @ g2))
   \<and> isLiteral (Literal u lang dt) \<and> URIRef u \<noteq> Literal u lang dt"
  by (simp add: circular_count_eq)

text \<open>
  A graph with only such a triple has count 1; with a Literal of another text, or under another
  predicate, it has count 0.
\<close>

theorem literal_identifier_counted_witness:
  "circular_count literal_identifier = 1 \<and>
   circular_count [(URIRef ''urn:e4'', hasIdentifier, Literal ''urn:e5'' None None)] = 0 \<and>
   circular_count [(URIRef ''urn:e4'', RDFS_label, Literal ''urn:e4'' None None)] = 0"
proof -
  have empty: "circular_count ([] @ []) = 0"
    by (simp add: circular_count_eq)
  have other: "RDFS_label \<noteq> hasIdentifier"
    by (simp add: vocab_defs)
  have differ: "''urn:e5'' \<noteq> ''urn:e4''"
    by simp
  note t = literal_identifier_counted [of "[]" "URIRef ''urn:e4''" "Literal ''urn:e4'' None None"
      "[]" RDFS_label "''urn:e4''" None None "''urn:e5''"]
  from t have "circular_count ([] @ (URIRef ''urn:e4'', hasIdentifier, Literal ''urn:e4'' None None) # [])
      = circular_count ([] @ []) + 1"
    by blast
  moreover from t differ
  have "circular_count ([] @ (URIRef ''urn:e4'', hasIdentifier, Literal ''urn:e5'' None None) # [])
      = circular_count ([] @ [])"
    by blast
  moreover from t other
  have "circular_count ([] @ (URIRef ''urn:e4'', RDFS_label, Literal ''urn:e4'' None None) # [])
      = circular_count ([] @ [])"
    by blast
  ultimately show ?thesis
    using empty by (simp add: literal_identifier_def)
qed

text \<open>
  Claim C8. For a loaded graph, the spelling issues are one for each triple with the label
  predicate and a Literal object whose text contains \<open>minessotta\<close> in some mix of upper and
  lower case, that is, has a contiguous part that lower-cases to it; other label triples give
  none. These are the spelling lines of the report, and a label triple never changes the verdict.
\<close>

theorem spelling_check:
  assumes "parse ttl_file = Inr g"
  shows "spelling_issues g =
           map (\<lambda>(s, p, ob). Spelling (str ob))
             (filter (\<lambda>(s, p, ob). p = RDFS_label \<and> isLiteral ob \<and>
                        (\<exists>w. sublist w (str ob) \<and> lower w = ''minessotta'')) g)
       \<and> filter is_spelling_issue (snd (validate_milestone1 parse ttl_file)) = spelling_issues g
       \<and> fst (validate_milestone1 (\<lambda>f. Inr ((s', RDFS_label, ob') # g)) ttl_file) =
           fst (validate_milestone1 parse ttl_file)"
proof -
  note loaded = validate_milestone1_loaded [of parse ttl_file g, OF assms]
  have issues: "spelling_issues g =
           map (\<lambda>(s, p, ob). Spelling (str ob))
             (filter (\<lambda>(s, p, ob). p = RDFS_label \<and> isLiteral ob \<and>
                        (\<exists>w. sublist w (str ob) \<and> lower w = ''minessotta'')) g)"
    by (simp add: spelling_issues_eq contains_any_case case_prod_unfold)
  have report: "filter is_spelling_issue (snd (validate_milestone1 parse ttl_file)) =
      spelling_issues g"
    by (simp add: loaded filter_spelling_report)
  have advisory: "fst (validate_milestone1 (\<lambda>f. Inr ((s', RDFS_label, ob') # g)) ttl_file) =
           fst (validate_milestone1 parse ttl_file)"
    by (simp add: loaded validate_milestone1_loaded verdict_label_triple)
  from issues report advisory show ?thesis by blast
qed

text \<open>Of the three sample labels only the misspelt Literal is reported, once.\<close>

theorem spelling_check_witness:
  "filter is_spelling_issue (snd (validate_milestone1 (\<lambda>f. Inr label_graph) ''m1.ttl'')) =
     [Spelling ''St Paul, MinesSOTTA'']"
proof -
  have "spelling_issues label_graph = [Spelling ''St Paul, MinesSOTTA'']"
    by (simp add: spelling_issues_eq label_graph_def lower_def lower_char_def vocab_defs)
  then show ?thesis
    using spelling_check [of "\<lambda>f. Inr label_graph" "''m1.ttl''" label_graph, OF refl]
    by simp
qed

section \<open>The overall verdict\<close>

text \<open>
  Claim C1. For a graph that loads, the verdict returned by \<^verbatim>\<open>validate_milestone1\<close> is true
  exactly when each of the five required types has a typed subject, no \<^verbatim>\<open>hasLocation\<close> triple has a
  Literal object, and no two-hop path from a Participant ends in a Literal. Nothing else enters
  the verdict: labels, identifiers and the no-connection warning do not occur in the condition.
\<close>

theorem verdict_characterisation:
  assumes "parse ttl_file = Inr g"
  shows "fst (validate_milestone1 parse ttl_file) \<longleftrightarrow>
     ((\<exists>s. (s, RDF_type, OMC ''CreativeWork'') \<in> set g) \<and>
      (\<exists>s. (s, RDF_type, OMC ''Participant'') \<in> set g) \<and>
      (\<exists>s. (s, RDF_type, OMC ''Person'') \<in> set g) \<and>
      (\<exists>s. (s, RDF_type, OMC ''Location'') \<in> set g) \<and>
      (\<exists>s. (s, RDF_type, OMC ''Asset'') \<in> set g)) \<and>
     \<not> (\<exists>s ob. (s, hasLocation, ob) \<in> set g \<and> isLiteral ob) \<and>
     \<not> (\<exists>p x l. (p, RDF_type, OMC ''Participant'') \<in> set g \<and>
                 (p, hasParticipantStructuralCharacteristic, x) \<in> set g \<and>
                 (x, hasLocation, l) \<in> set g \<and> isLiteral l)"
proof -
  have "fst (validate_milestone1 parse ttl_file) = verdict g"
    using assms by (simp add: validate_milestone1_loaded)
  then show ?thesis
    unfolding verdict_def all_present_iff location_errors_empty_iff no_malformed_iff
    by simp
qed

text \<open>The complete sample graph passes.\<close>

theorem verdict_characterisation_witness:
  "fst (validate_milestone1 (\<lambda>f. Inr complete_graph) ''m1.ttl'')"
proof -
  have loaded: "(\<lambda>f. Inr complete_graph) ''m1.ttl'' = Inr complete_graph" by simp
  show ?thesis
    unfolding verdict_characterisation [OF loaded]
    by (simp add: complete_graph_def vocab_defs)
qed

section \<open>The command line and the load\<close>

text \<open>
  Claim C6, as the source has it. There are three early exits, each with status 1 and before any
  check: the import guard when the store library is missing, the usage line with fewer than two
  entries in \<^verbatim>\<open>sys.argv\<close>, and the parse failure when the load raises. In every other run the
  report is the banner and the load line followed by the whole of check 1 (one line for each
  required name), of check 2 (every location error), of check 3 (a line for every two-hop end,
  and the warning when no success was recorded), of check 4 (every quality issue) and the
  summary, whatever the earlier checks found; the headers of the four checks appear in order and
  the exit status is 0 exactly when the verdict is true.
\<close>

theorem main_exit_paths:
  "(\<not> rdflib_installed \<longrightarrow> main rdflib_installed parse argv = ([RdflibNotInstalled], 1)) \<and>
   (rdflib_installed \<and> length argv < 2 \<longrightarrow> main rdflib_installed parse argv = ([Usage], 1)) \<and>
   (rdflib_installed \<and> 2 \<le> length argv \<and> parse (argv ! 1) = Inl e \<longrightarrow>
      main rdflib_installed parse argv = ([Banner, Title, Banner, ParseFailed e], 1)) \<and>
   (rdflib_installed \<and> 2 \<le> length argv \<and> parse (argv ! 1) = Inr g \<longrightarrow>
      fst (main rdflib_installed parse argv) =
        [Banner, Title, Banner, Loaded (length g)] @
        [Check1Header] @
        map (\<lambda>(name, entity_type).
               if 0 < length (subjects g RDF_type entity_type)
               then EntityFound name (length (subjects g RDF_type entity_type))
               else EntityMissing name) requirements @
        [Check2Header] @
        (if location_errors g \<noteq> [] then [CriticalErrorsFound] @ location_errors g @ [FixHint]
         else [AllLocationsAreURIs]) @
        [Check3Header] @
        map (\<lambda>(p, x, l). if isLiteral l then ConnectionLiteral
                         else ConnectionOK (short_name 15 p)) (two_hop g) @
        (if \<exists>(p, x, l) \<in> set (two_hop g). \<not> isLiteral l then []
         else [NoConnection, NoConnectionExpected]) @
        [Check4Header] @
        (if find_quality_issues g \<noteq> [] then [QualityIssuesFound] @ find_quality_issues g
         else [NoQualityIssues]) @
        [SummaryBanner] @
        (if fst (validate_milestone1 parse (argv ! 1))
         then [ValidationPassed, AllPresent] @
              (if find_quality_issues g \<noteq> [] then [Note (length (find_quality_issues g))] else [])
         else [ValidationFailed, MustBeFixed]) @
        [Banner] \<and>
      filter is_check_header (fst (main rdflib_installed parse argv)) =
        [Check1Header, Check2Header, Check3Header, Check4Header] \<and>
      snd (main rdflib_installed parse argv) =
        (if fst (validate_milestone1 parse (argv ! 1)) then 0 else 1))"
proof -
  have guard: "\<not> rdflib_installed \<longrightarrow> main rdflib_installed parse argv = ([RdflibNotInstalled], 1)"
    by (simp add: main_def)
  have usage: "rdflib_installed \<and> length argv < 2 \<longrightarrow> main rdflib_installed parse argv = ([Usage], 1)"
    by (simp add: main_def)
  have failed: "rdflib_installed \<and> 2 \<le> length argv \<and> parse (argv ! 1) = Inl e \<longrightarrow>
      main rdflib_installed parse argv = ([Banner, Title, Banner, ParseFailed e], 1)"
    by (simp add: main_def validate_milestone1_failed)
  have run: "fst (main rdflib_installed parse argv) =
        [Banner, Title, Banner, Loaded (length g)] @
        [Check1Header] @
        map (\<lambda>(name, entity_type).
               if 0 < length (subjects g RDF_type entity_type)
               then EntityFound name (length (subjects g RDF_type entity_type))
               else EntityMissing name) requirements @
        [Check2Header] @
        (if location_errors g \<noteq> [] then [CriticalErrorsFound] @ location_errors g @ [FixHint]
         else [AllLocationsAreURIs]) @
        [Check3Header] @
        map (\<lambda>(p, x, l). if isLiteral l then ConnectionLiteral
                         else ConnectionOK (short_name 15 p)) (two_hop g) @
        (if \<exists>(p, x, l) \<in> set (two_hop g). \<not> isLiteral l then []
         else [NoConnection, NoConnectionExpected]) @
        [Check4Header] @
        (if find_quality_issues g \<noteq> [] then [QualityIssuesFound] @ find_quality_issues g
         else [NoQualityIssues]) @
        [SummaryBanner] @
        (if fst (validate_milestone1 parse (argv ! 1))
         then [ValidationPassed, AllPresent] @
              (if find_quality_issues g \<noteq> [] then [Note (length (find_quality_issues g))] else [])
         else [ValidationFailed, MustBeFixed]) @
        [Banner] \<and>
      filter is_check_header (fst (main rdflib_installed parse argv)) =
        [Check1Header, Check2Header, Check3Header, Check4Header] \<and>
      snd (main rdflib_installed parse argv) =
        (if fst (validate_milestone1 parse (argv ! 1)) then 0 else 1)"
    if inst: "rdflib_installed" and len: "2 \<le> length argv" and load: "parse (argv ! 1) = Inr g"
  proof -
    note loaded = validate_milestone1_loaded [of parse "argv ! 1" g, OF load]
    have m: "main rdflib_installed parse argv =
        ([Banner, Title, Banner, Loaded (length g)] @ checks_report g, if verdict g then 0 else 1)"
      using inst len loaded by (simp add: main_def)
    have v: "fst (validate_milestone1 parse (argv ! 1)) = verdict g"
      using loaded by simp
    have entity: "map (entity_line g) requirements =
        map (\<lambda>(name, entity_type).
               if 0 < length (subjects g RDF_type entity_type)
               then EntityFound name (length (subjects g RDF_type entity_type))
               else EntityMissing name) requirements"
      by (rule map_cong) (auto simp: entity_line_def Let_def)
    have conn: "map connection_line (two_hop g) =
        map (\<lambda>(p, x, l). if isLiteral l then ConnectionLiteral
                         else ConnectionOK (short_name 15 p)) (two_hop g)"
      by (rule map_cong) (auto simp: connection_line_def)
    have ex: "(\<exists>h\<in>set (two_hop g). \<not> isLiteral (snd (snd h))) \<longleftrightarrow>
        (\<exists>(p, x, l) \<in> set (two_hop g). \<not> isLiteral l)"
      by (simp add: case_prod_unfold)
    have report: "checks_report g =
        [Check1Header] @
        map (\<lambda>(name, entity_type).
               if 0 < length (subjects g RDF_type entity_type)
               then EntityFound name (length (subjects g RDF_type entity_type))
               else EntityMissing name) requirements @
        [Check2Header] @
        (if location_errors g \<noteq> [] then [CriticalErrorsFound] @ location_errors g @ [FixHint]
         else [AllLocationsAreURIs]) @
        [Check3Header] @
        map (\<lambda>(p, x, l). if isLiteral l then ConnectionLiteral
                         else ConnectionOK (short_name 15 p)) (two_hop g) @
        (if \<exists>(p, x, l) \<in> set (two_hop g). \<not> isLiteral l then []
         else [NoConnection, NoConnectionExpected]) @
        [Check4Header] @
        (if find_quality_issues g \<noteq> [] then [QualityIssuesFound] @ find_quality_issues g
         else [NoQualityIssues]) @
        [SummaryBanner] @
        (if verdict g
         then [ValidationPassed, AllPresent] @
              (if find_quality_issues g \<noteq> [] then [Note (length (find_quality_issues g))] else [])
         else [ValidationFailed, MustBeFixed]) @
        [Banner]"
      unfolding checks_report_def check2_lines_def check3_lines_def check4_lines_def
        summary_lines_def entity conn ex
      by simp
    have full: "fst (main rdflib_installed parse argv) =
        [Banner, Title, Banner, Loaded (length g)] @ checks_report g"
      by (simp add: m)
    have headers: "filter is_check_header (fst (main rdflib_installed parse argv)) =
        [Check1Header, Check2Header, Check3Header, Check4Header]"
      by (simp add: m filter_header_report)
    have status: "snd (main rdflib_installed parse argv) = (if verdict g then 0 else 1)"
      by (simp add: m)
    show ?thesis
      unfolding v using full [unfolded report] headers status by blast
  qed
  from guard usage failed run show ?thesis by blast
qed

text \<open>
  The early exits at concrete command lines, and a run that goes on after the blocking error of
  check 2: all four checks are in its report.
\<close>

theorem main_exit_paths_witness:
  "main False (\<lambda>f. Inr literal_location) [''validate_milestone1.py'', ''m1.ttl''] =
     ([RdflibNotInstalled], 1) \<and>
   main True (\<lambda>f. Inr literal_location) [''validate_milestone1.py''] = ([Usage], 1) \<and>
   main True (\<lambda>f. Inl ''no such file'') [''validate_milestone1.py'', ''m1.ttl''] =
     ([Banner, Title, Banner, ParseFailed ''no such file''], 1) \<and>
   main True (\<lambda>f. Inr literal_location) [''validate_milestone1.py'', ''m1.ttl''] =
     ([Banner, Title, Banner, Loaded 7,
       Check1Header, EntityFound ''CreativeWork'' 1, EntityFound ''Participant'' 1,
       EntityFound ''Person'' 1, EntityFound ''Location'' 1, EntityFound ''Asset'' 1,
       Check2Header, CriticalErrorsFound, LocationError ''h1'' ''Saint Paul'', FixHint,
       Check3Header, ConnectionLiteral, NoConnection, NoConnectionExpected,
       Check4Header, NoQualityIssues,
       SummaryBanner, ValidationFailed, MustBeFixed, Banner], 1)"
proof -
  have failing: "\<not> fst (validate_milestone1 (\<lambda>f. Inr literal_location) ''m1.ttl'')"
    by (simp add: validate_milestone1_loaded verdict_def location_errors_eq literal_location_def
          vocab_defs)
  have hop: "two_hop literal_location = [(ME ''p1'', ME ''h1'', Literal ''Saint Paul'' None None)]"
    by (simp add: two_hop_def participants_def subjects_def objects_def triples_def
          literal_location_def vocab_defs)
  have subj: "subjects literal_location RDF_type (OMC ''CreativeWork'') = [ME ''cw1'']"
    "subjects literal_location RDF_type (OMC ''Participant'') = [ME ''p1'']"
    "subjects literal_location RDF_type (OMC ''Person'') = [ME ''h1'']"
    "subjects literal_location RDF_type (OMC ''Location'') = [ME ''l1'']"
    "subjects literal_location RDF_type (OMC ''Asset'') = [ME ''a1'']"
    by (simp_all add: subjects_def triples_def literal_location_def vocab_defs)
  have errs: "location_errors literal_location = [LocationError ''h1'' ''Saint Paul'']"
    by (simp add: location_errors_eq literal_location_def short_name_h1) (simp add: vocab_defs)
  have quality: "find_quality_issues literal_location = []"
    by (simp add: find_quality_issues_def spelling_issues_eq circular_count_eq
          literal_location_def vocab_defs)
  have len: "length literal_location = 7"
    by (simp add: literal_location_def)
  have e1: "main False (\<lambda>f. Inr literal_location) [''validate_milestone1.py'', ''m1.ttl''] =
     ([RdflibNotInstalled], 1)"
    using main_exit_paths [of False "\<lambda>f. Inr literal_location"
        "[''validate_milestone1.py'', ''m1.ttl'']" "''no such file''" "[]"]
    by simp
  have e2: "main True (\<lambda>f. Inr literal_location) [''validate_milestone1.py''] = ([Usage], 1)"
    using main_exit_paths [of True "\<lambda>f. Inr literal_location" "[''validate_milestone1.py'']"
        "''no such file''" "[]"]
    by simp
  have e3: "main True (\<lambda>f. Inl ''no such file'') [''validate_milestone1.py'', ''m1.ttl''] =
     ([Banner, Title, Banner, ParseFailed ''no such file''], 1)"
    using main_exit_paths [of True "\<lambda>f. Inl ''no such file''"
        "[''validate_milestone1.py'', ''m1.ttl'']" "''no such file''" "[]"]
    by simp
  have e4: "main True (\<lambda>f. Inr literal_location) [''validate_milestone1.py'', ''m1.ttl''] =
     ([Banner, Title, Banner, Loaded 7,
       Check1Header, EntityFound ''CreativeWork'' 1, EntityFound ''Participant'' 1,
       EntityFound ''Person'' 1, EntityFound ''Location'' 1, EntityFound ''Asset'' 1,
       Check2Header, CriticalErrorsFound, LocationError ''h1'' ''Saint Paul'', FixHint,
       Check3Header, ConnectionLiteral, NoConnection, NoConnectionExpected,
       Check4Header, NoQualityIssues,
       SummaryBanner, ValidationFailed, MustBeFixed, Banner], 1)"
    using main_exit_paths [of True "\<lambda>f. Inr literal_location"
        "[''validate_milestone1.py'', ''m1.ttl'']" "''no such file''" literal_location]
      failing
    by (simp add: prod_eq_iff hop subj errs quality len requirements_def)
  from e1 e2 e3 e4 show ?thesis by blast
qed

text \<open>
  The claim as written fails: with an argument and a file that would load, the run still ends
  before any check when the store library is missing.
\<close>

theorem only_early_exit_counterexample:
  "length [''validate_milestone1.py'', ''m1.ttl''] = 2 \<and>
   (\<lambda>f. Inr complete_graph) ([''validate_milestone1.py'', ''m1.ttl''] ! 1) = Inr complete_graph \<and>
   main False (\<lambda>f. Inr complete_graph) [''validate_milestone1.py'', ''m1.ttl''] =
     ([RdflibNotInstalled], 1)"
  by (simp add: main_def)

section \<open>Repeated runs\<close>




end
